theory Spec2Isabelle
  imports Main "HOL-Library.AList" "HOL-Library.Sublist"
begin

text \<open>
  A model of \<open>src/lib/index.js\<close>, the class \<open>RealtimeConfig\<close>: an
  \<open>EventEmitter\<close> that loads a configuration file in its constructor, polls the file's
  modification time on a timer, merges every new version of the file into one object and
  exposes the keys of that object as accessor properties of itself.

  The file system, \<open>path.extname\<close> and the two parsers are parameters of the model.
  Each call of \<open>update()\<close> is a function from the instance to the instance it leaves,
  the list of what it did to the outside, and the exception it threw, if it threw.
\<close>

section \<open>JavaScript values, exceptions and the primitives the watcher calls\<close>

text \<open>
  The values a configuration file can evaluate to. They are plain data: an object is the
  list of its own enumerable properties in \<open>Object.keys\<close> order and has the standard
  prototype, as an array has; numbers are kept opaque as integers.
\<close>

datatype jsval =
    JUndefined
  | JNull
  | JBool bool
  | JNum int
  | JStr string
  | JArr "jsval list"
  | JObj "(string \<times> jsval) list"

text \<open>
  What a \<open>throw\<close> carries. \<open>Error\<close> is an error object with its message, as the
  file system, the markup parser and the engine itself raise; \<open>Unhandled\<close> is the error
  \<open>EventEmitter.emit\<close> raises when an \<open>'error'\<close> event has no listener, wrapping
  the value that was emitted; \<open>Thrown\<close> is any other value, which evaluated
  configuration code and handlers are free to throw: \<open>throw null\<close>, \<open>throw 'text'\<close>,
  \<open>throw {message: ...}\<close>.
\<close>

datatype exn = Error string | Unhandled jsval | Thrown jsval

text \<open>Decimal numerals, for the index keys of strings and arrays.\<close>

definition digit_char :: "nat \<Rightarrow> char" where
  "digit_char d = char_of (of_char CHR ''0'' + d)"

fun string_of_nat :: "nat \<Rightarrow> string" where
  "string_of_nat n =
     (if 10 \<le> n then string_of_nat (n div 10) @ [digit_char (n mod 10)] else [digit_char n])"

declare string_of_nat.simps [simp del]

text \<open>
  How the message of an unhandled \<open>'error'\<close> event prints the emitted value: a string
  between single quotes (the watcher emits nothing but strings), the other primitives by
  their literal, an array or an object abbreviated.
\<close>

fun inspect :: "jsval \<Rightarrow> string" where
  "inspect JUndefined = ''undefined''"
| "inspect JNull = ''null''"
| "inspect (JBool b) = (if b then ''true'' else ''false'')"
| "inspect (JNum n) = (if n < 0 then CHR ''-'' # string_of_nat (nat (- n)) else string_of_nat (nat n))"
| "inspect (JStr s) = [CHR 0x27] @ s @ [CHR 0x27]"
| "inspect (JArr vs) = ''[Array]''"
| "inspect (JObj kvs) = ''[Object]''"

text \<open>
  The own enumerable string-keyed properties of a value, as \<open>Object.keys\<close> walks them:
  the entries of an object, the indices of an array or of a string, nothing for the
  other primitives.
\<close>

fun own_enumerable :: "jsval \<Rightarrow> (string \<times> jsval) list" where
  "own_enumerable (JObj kvs) = kvs"
| "own_enumerable (JArr vs) = zip (map string_of_nat [0..<length vs]) vs"
| "own_enumerable (JStr s) = zip (map string_of_nat [0..<length s]) (map (\<lambda>c. JStr [c]) s)"
| "own_enumerable _ = []"

text \<open>\<open>Object.keys(c)\<close>: a \<open>TypeError\<close> on \<open>undefined\<close> and \<open>null\<close>.\<close>

fun object_keys :: "jsval \<Rightarrow> exn + string list" where
  "object_keys JUndefined = Inl (Error ''Cannot convert undefined or null to object'')"
| "object_keys JNull = Inl (Error ''Cannot convert undefined or null to object'')"
| "object_keys v = Inr (map fst (own_enumerable v))"

text \<open>\<open>c[key]\<close>, for a key that \<open>Object.keys\<close> has listed.\<close>

definition get_member :: "jsval \<Rightarrow> string \<Rightarrow> jsval" where
  "get_member c key = (case map_of (own_enumerable c) key of Some v \<Rightarrow> v | None \<Rightarrow> JUndefined)"

text \<open>
  \<open>ex.message\<close>, the expression the \<open>catch\<close> evaluates. It is the message of an error
  object and the \<open>message\<close> property, if any, of another thrown value; on a thrown
  \<open>null\<close> or \<open>undefined\<close> the property access itself raises a \<open>TypeError\<close>.
\<close>

fun message :: "exn \<Rightarrow> exn + jsval" where
  "message (Error m) = Inr (JStr m)"
| "message (Unhandled v) = Inr (JStr (''Unhandled error. ('' @ inspect v @ '')''))"
| "message (Thrown JUndefined) =
     Inl (Error (''Cannot read properties of undefined (reading '' @ [CHR 0x27] @ ''message'' @ [CHR 0x27] @ '')''))"
| "message (Thrown JNull) =
     Inl (Error (''Cannot read properties of null (reading '' @ [CHR 0x27] @ ''message'' @ [CHR 0x27] @ '')''))"
| "message (Thrown v) = Inr (get_member v ''message'')"

text \<open>
  \<open>config[key] = v\<close> on the object that starts as \<open>{}\<close>. The object is its own
  properties and its prototype: \<open>None\<close> for \<open>Object.prototype\<close>, which it has from
  the start, otherwise the value an assignment to \<open>__proto__\<close> has put there
  (\<open>JNull\<close> for no prototype at all).

  Every key but \<open>__proto__\<close> is stored as an own property. For \<open>__proto__\<close> the
  assignment looks the property up first: an own property is overwritten; when the
  chain of prototypes still leads to the accessor of \<open>Object.prototype\<close>, its setter
  runs, which replaces the prototype by an object, an array or \<open>null\<close>, ignores
  any other value, and adds no property; when the chain does not lead there (no
  prototype, or a prototype that has an own property of that name), an own property
  is added.
\<close>

definition reaches_accessor :: "jsval option \<Rightarrow> bool" where
  "reaches_accessor p =
     (case p of
        None \<Rightarrow> True
      | Some (JObj kvs) \<Rightarrow> map_of kvs ''__proto__'' = None
      | Some (JArr vs) \<Rightarrow> True
      | Some _ \<Rightarrow> False)"

definition set_prototype :: "jsval \<Rightarrow> jsval option \<Rightarrow> jsval option" where
  "set_prototype v p =
     (case v of
        JObj kvs \<Rightarrow> Some v
      | JArr vs \<Rightarrow> Some v
      | JNull \<Rightarrow> Some JNull
      | _ \<Rightarrow> p)"

definition assign_member ::
  "string \<Rightarrow> jsval \<Rightarrow> (string \<times> jsval) list \<times> jsval option \<Rightarrow> (string \<times> jsval) list \<times> jsval option" where
  "assign_member key v obj =
     (case obj of (own, p) \<Rightarrow>
        if key = ''__proto__'' \<and> map_of own key = None \<and> reaches_accessor p
        then (own, set_prototype v p)
        else (AList.update key v own, p))"

text \<open>\<open>String.prototype.toLowerCase\<close> on the ASCII letters.\<close>

definition lower_char :: "char \<Rightarrow> char" where
  "lower_char c =
     (let n = (of_char c :: nat) in if 65 \<le> n \<and> n \<le> 90 then char_of (n + 32) else c)"

definition toLowerCase :: "string \<Rightarrow> string" where
  "toLowerCase s = map lower_char s"

text \<open>\<open>String.prototype.indexOf\<close>: the first position of the needle, or \<open>-1\<close>.\<close>

fun indexOf :: "string \<Rightarrow> string \<Rightarrow> int" where
  "indexOf [] needle = (if needle = [] then 0 else - 1)"
| "indexOf (c # cs) needle =
     (if prefix needle (c # cs) then 0
      else (let i = indexOf cs needle in if i < 0 then - 1 else i + 1))"

text \<open>
  The collaborators of the watcher, one record per poll cycle since the file changes
  between cycles: \<open>fs.statSync\<close> (already reduced to \<open>Number(stat.mtime)\<close>),
  \<open>fs.readFileSync\<close>, \<open>path.extname\<close>, \<open>yaml.safeLoad\<close>, and the construction and
  call of \<open>new Function(body)\<close>.
\<close>

record env =
  statSync :: "string \<Rightarrow> exn + int"
  readFileSync :: "string \<Rightarrow> exn + string"
  extname :: "string \<Rightarrow> string"
  safeLoad :: "string \<Rightarrow> exn + jsval"
  newFunction :: "string \<Rightarrow> exn + jsval"

section \<open>The watcher\<close>

text \<open>
  A listener is called with the event's argument and either returns or throws; it does
  not reach into the watcher.
\<close>

type_synonym listener = "jsval \<Rightarrow> exn option"

text \<open>The options object the caller passes: every key may be absent.\<close>

record user_options =
  u_interval :: "int option"
  u_modifyTime :: "int option"
  u_filename :: "string option"
  u_debug :: "bool option"
  u_onupdate :: "listener option"
  u_onerror :: "listener option"

text \<open>\<open>this[symbolOptions]\<close>.\<close>

record options =
  interval :: int
  modifyTime :: int
  filename :: string
  debug :: bool

text \<open>
  The descriptor of an accessor property defined on the instance: its getter is the
  closure \<open>() => this[symbolConfig][key]\<close>, recorded by the key it captured.
\<close>

record descriptor =
  getter :: string
  setter :: bool
  configurable :: bool

text \<open>
  The instance: \<open>this[symbolOptions]\<close>, \<open>this[symbolConfig]\<close> as its own properties
  and its prototype, the listeners of the \<open>EventEmitter\<close> it extends, by event name,
  and the accessor properties defined on it.
  The calls \<open>this.emit(...)\<close> and \<open>this.update()\<close> are modelled as calls of the
  methods of the class: the keys of the configuration are taken not to bear the names of
  these methods or of the emitter's own fields.
\<close>

record watcher =
  options :: options
  config :: "(string \<times> jsval) list"
  config_proto :: "jsval option"
  listeners :: "string \<Rightarrow> listener list"
  properties :: "(string \<times> descriptor) list"

text \<open>
  What a cycle does to the outside, in order. \<open>Emit\<close> records the call of
  \<open>this.emit\<close> with its event name and argument, whether or not a listener is there to
  receive it; \<open>ConsoleError\<close> records the format and the argument given to
  \<open>console.error\<close>; \<open>SetTimeout\<close> records the delay of the timer that was scheduled.
\<close>

datatype action =
    StatSync string
  | ReadFileSync string
  | SafeLoad string
  | NewFunction string
  | Emit string jsval
  | ConsoleError string jsval
  | SetTimeout int

fun is_emit :: "action \<Rightarrow> bool" where
  "is_emit (Emit _ _) = True"
| "is_emit _ = False"

fun is_timeout :: "action \<Rightarrow> bool" where
  "is_timeout (SetTimeout _) = True"
| "is_timeout _ = False"

subsection \<open>EventEmitter\<close>

text \<open>Listeners run in registration order; the first one that throws ends the emit.\<close>

fun call_listeners :: "listener list \<Rightarrow> jsval \<Rightarrow> exn option" where
  "call_listeners [] v = None"
| "call_listeners (h # hs) v = (case h v of Some e \<Rightarrow> Some e | None \<Rightarrow> call_listeners hs v)"

definition on :: "string \<Rightarrow> listener \<Rightarrow> watcher \<Rightarrow> watcher" where
  "on name h w = w\<lparr>listeners := (listeners w)(name := listeners w name @ [h])\<rparr>"

text \<open>
  \<open>emit\<close> returns whether the event had listeners; an \<open>'error'\<close> event without any
  is thrown instead.
\<close>

definition emit :: "watcher \<Rightarrow> string \<Rightarrow> jsval \<Rightarrow> exn + bool" where
  "emit w name v =
     (if listeners w name = [] then
        (if name = ''error'' then Inl (Unhandled v) else Inr False)
      else
        (case call_listeners (listeners w name) v of
           Some e \<Rightarrow> Inl e
         | None \<Rightarrow> Inr True))"

subsection \<open>RealtimeConfig.update\<close>

text \<open>The \<open>switch\<close> on the extension: which parser gets which text.\<close>

definition parse :: "env \<Rightarrow> string \<Rightarrow> string \<Rightarrow> action \<times> (exn + jsval)" where
  "parse e fname content =
     (let ext = toLowerCase (extname e fname) in
      if ext = ''.yaml'' \<or> ext = ''.yml'' \<or> ext = ''.json'' then
        (SafeLoad content, safeLoad e content)
      else if indexOf content ''module.exports'' \<ge> 0 then
        (let body = ''var module = {exports: {}};'' @ content @ '';return module.exports''
         in (NewFunction body, newFunction e body))
      else
        (let body = ''return ('' @ content @ '')''
         in (NewFunction body, newFunction e body)))"

text \<open>\<open>Object.keys(c).forEach(key => { config[key] = c[key] })\<close>.\<close>

definition merge_keys ::
  "jsval \<Rightarrow> string list \<Rightarrow> (string \<times> jsval) list \<times> jsval option \<Rightarrow> (string \<times> jsval) list \<times> jsval option" where
  "merge_keys c keys obj = foldl (\<lambda>acc key. assign_member key (get_member c key) acc) obj keys"

text \<open>
  \<open>Object.keys(config).forEach(key => Object.defineProperty(this, key, {get, configurable: true}))\<close>.
\<close>

definition define_properties :: "string list \<Rightarrow> (string \<times> descriptor) list \<Rightarrow> (string \<times> descriptor) list" where
  "define_properties keys props =
     foldl (\<lambda>acc key. AList.update key \<lparr>getter = key, setter = False, configurable = True\<rparr> acc)
       props keys"

text \<open>
  The body of the \<open>try\<close>: the state it leaves, what it did, and the exception that left
  it, if any.
\<close>

definition try_block :: "env \<Rightarrow> watcher \<Rightarrow> watcher \<times> action list \<times> exn option" where
  "try_block e w =
     (let opts = options w; f = filename opts in
      case statSync e f of
        Inl ex \<Rightarrow> (w, [StatSync f], Some ex)
      | Inr mtime \<Rightarrow>
          if modifyTime opts \<noteq> mtime then
            (case readFileSync e f of
               Inl ex \<Rightarrow> (w, [StatSync f, ReadFileSync f], Some ex)
             | Inr content \<Rightarrow>
                 (case parse e f content of
                    (a, Inl ex) \<Rightarrow> (w, [StatSync f, ReadFileSync f, a], Some ex)
                  | (a, Inr c) \<Rightarrow>
                      (let w1 = w\<lparr>options := opts\<lparr>modifyTime := mtime\<rparr>\<rparr> in
                       case object_keys c of
                         Inl ex \<Rightarrow> (w1, [StatSync f, ReadFileSync f, a], Some ex)
                       | Inr keys \<Rightarrow>
                           (let obj = merge_keys c keys (config w1, config_proto w1);
                                w2 = w1\<lparr>config := fst obj, config_proto := snd obj\<rparr>;
                                w3 = w2\<lparr>properties :=
                                        define_properties (map fst (config w2)) (properties w2)\<rparr>;
                                tr = [StatSync f, ReadFileSync f, a, Emit ''update'' c]
                            in case emit w3 ''update'' c of
                                 Inl ex \<Rightarrow> (w3, tr, Some ex)
                               | Inr _ \<Rightarrow> (w3, tr, None)))))
          else (w, [StatSync f], None))"

text \<open>
  One call of \<open>update()\<close>: the \<open>try\<close>, the \<open>catch\<close> that evaluates \<open>ex.message\<close>,
  emits \<open>'error'\<close> with it and then logs under \<open>debug\<close>, and the \<open>setTimeout\<close> behind
  them. An exception raised inside the \<open>catch\<close>, by \<open>ex.message\<close> or by \<open>emit\<close>, leaves
  \<open>update()\<close> before the timer is set. The third component is the exception
  \<open>update()\<close> throws to its caller, if it throws.
\<close>

definition update :: "env \<Rightarrow> watcher \<Rightarrow> watcher \<times> action list \<times> exn option" where
  "update e w =
     (case try_block e w of
        (w1, tr, None) \<Rightarrow> (w1, tr @ [SetTimeout (interval (options w1))], None)
      | (w1, tr, Some ex) \<Rightarrow>
          (case message ex of
             Inl ex' \<Rightarrow> (w1, tr, Some ex')
           | Inr msg \<Rightarrow>
               (let tr1 = tr @ [Emit ''error'' msg] in
                case emit w1 ''error'' msg of
                  Inl ex' \<Rightarrow> (w1, tr1, Some ex')
                | Inr _ \<Rightarrow>
                    (let tr2 = (if debug (options w1)
                                then tr1 @ [ConsoleError ''rtconfig/src/index.ts:222 Read the config error. %s'' msg]
                                else tr1)
                     in (w1, tr2 @ [SetTimeout (interval (options w1))], None)))))"

text \<open>
  What the \<open>catch\<close> and the \<open>setTimeout\<close> add to the cycle when \<open>ex.message\<close> has been
  read as \<open>m\<close> and \<open>emit\<close> has returned.
\<close>

definition catch_trace :: "watcher \<Rightarrow> jsval \<Rightarrow> action list" where
  "catch_trace w m =
     Emit ''error'' m #
     (if debug (options w)
      then [ConsoleError ''rtconfig/src/index.ts:222 Read the config error. %s'' m] else []) @
     [SetTimeout (interval (options w))]"

subsection \<open>The constructor and the other methods\<close>

text \<open>
  \<open>Object.assign({interval: 60000, modifyTime: 0, filename: filename}, options)\<close>: a key
  of the caller's object replaces the default.
\<close>

definition assign_options :: "string \<Rightarrow> user_options \<Rightarrow> options" where
  "assign_options fname uo =
     \<lparr>interval = (case u_interval uo of Some i \<Rightarrow> i | None \<Rightarrow> 60000),
      modifyTime = (case u_modifyTime uo of Some t \<Rightarrow> t | None \<Rightarrow> 0),
      filename = (case u_filename uo of Some f \<Rightarrow> f | None \<Rightarrow> fname),
      debug = (case u_debug uo of Some d \<Rightarrow> d | None \<Rightarrow> False)\<rparr>"

text \<open>The instance as the constructor has set it up when it reaches \<open>this.update()\<close>.\<close>

definition initial :: "string \<Rightarrow> user_options \<Rightarrow> watcher" where
  "initial fname uo =
     (let w0 = \<lparr>options = assign_options fname uo, config = [], config_proto = None,
                listeners = (\<lambda>_. []), properties = []\<rparr>;
          w1 = (case u_onupdate uo of Some h \<Rightarrow> on ''update'' h w0 | None \<Rightarrow> w0);
          w2 = (case u_onerror uo of Some h \<Rightarrow> on ''error'' h w1 | None \<Rightarrow> w1)
      in w2)"

text \<open>
  \<open>new RealtimeConfig(filename, options)\<close>: the third component is the exception the
  caller of the constructor receives, if any.
\<close>

definition constructor :: "env \<Rightarrow> string \<Rightarrow> user_options \<Rightarrow> watcher \<times> action list \<times> exn option" where
  "constructor e fname uo = update e (initial fname uo)"

definition getJSON :: "watcher \<Rightarrow> (string \<times> jsval) list" where
  "getJSON w = config w"

text \<open>
  Reading \<open>obj[key]\<close> through an accessor the watcher has defined: the getter looks its
  key up in the configuration of the moment. \<open>None\<close> when the watcher has defined no
  property of that name. The getters are defined for own properties of the
  configuration, which are never removed, so the lookup is among the own properties.
\<close>

definition read_property :: "watcher \<Rightarrow> string \<Rightarrow> jsval option" where
  "read_property w key =
     (case map_of (properties w) key of
        None \<Rightarrow> None
      | Some d \<Rightarrow>
          Some (case map_of (config w) (getter d) of Some v \<Rightarrow> v | None \<Rightarrow> JUndefined))"

subsection \<open>Timers\<close>

text \<open>
  The callback \<open>() => { this.update() }\<close> runs from the event loop: an exception that
  leaves it is uncaught, which ends the process.
\<close>

datatype process = Running watcher "action list" | Crashed exn "action list"

definition fire_timer :: "env \<Rightarrow> watcher \<Rightarrow> process" where
  "fire_timer e w =
     (case update e w of
        (w', tr, None) \<Rightarrow> Running w' tr
      | (w', tr, Some ex) \<Rightarrow> Crashed ex tr)"

text \<open>
  Successive cycles, one environment each, as long as each cycle has scheduled the next:
  the states after every cycle that ran.
\<close>

fun run_polls :: "env list \<Rightarrow> watcher \<Rightarrow> watcher list" where
  "run_polls [] w = []"
| "run_polls (e # es) w =
     (case update e w of
        (w', tr, None) \<Rightarrow> w' # run_polls es w'
      | (w', tr, Some ex) \<Rightarrow> [w'])"

text \<open>The successful stats of a sequence of cycles on one file: the timestamps they return.\<close>

fun stat_times :: "string \<Rightarrow> env list \<Rightarrow> int list" where
  "stat_times f [] = []"
| "stat_times f (e # es) =
     (case statSync e f of Inr t \<Rightarrow> t # stat_times f es | Inl _ \<Rightarrow> stat_times f es)"

definition modifyTimes :: "watcher list \<Rightarrow> int list" where
  "modifyTimes ws = map (\<lambda>s. modifyTime (options s)) ws"

section \<open>Example files, handlers and instances\<close>

text \<open>
  A small world to run the model in. \<open>plain_extname\<close> stands for \<open>path.extname\<close> on
  file names without directories; \<open>example_yaml\<close> and \<open>example_function\<close> stand for the
  two parsers on the handful of texts used below.
\<close>

definition plain_extname :: "string \<Rightarrow> string" where
  "plain_extname f =
     (let t = takeWhile (\<lambda>c. c \<noteq> CHR ''.'') (rev f)
      in if length t < length f then CHR ''.'' # rev t else [])"

definition example_yaml :: "string \<Rightarrow> exn + jsval" where
  "example_yaml s =
     (if s = ''host: 127.0.0.1'' then Inr (JObj [(''host'', JStr ''127.0.0.1'')])
      else if s = ''port: 3309'' then Inr (JObj [(''port'', JNum 3309)])
      else if s = [] then Inr JUndefined
      else Inl (Error ''bad indentation of a mapping entry''))"

definition example_function :: "string \<Rightarrow> exn + jsval" where
  "example_function body =
     (if body = ''var module = {exports: {}};module.exports = { port: 3309 };return module.exports''
        \<or> body = ''return ({ port: 3309 })''
      then Inr (JObj [(''port'', JNum 3309)])
      else if body = ''return ({ [`__proto__`]: 5, port: 3309 })''
      then Inr (JObj [(''__proto__'', JNum 5), (''port'', JNum 3309)])
      else if body = ''var module = {exports: {}};module.exports = {}; throw null;return module.exports''
      then Inl (Thrown JNull)
      else Inl (Error ''Invalid or unexpected token''))"

text \<open>A directory holding one file, and an empty one.\<close>

definition file_env :: "string \<Rightarrow> int \<Rightarrow> string \<Rightarrow> env" where
  "file_env name mtime content =
     \<lparr>statSync = (\<lambda>f. if f = name then Inr mtime else Inl (Error ''ENOENT: no such file or directory'')),
      readFileSync = (\<lambda>f. if f = name then Inr content else Inl (Error ''ENOENT: no such file or directory'')),
      extname = plain_extname,
      safeLoad = example_yaml,
      newFunction = example_function\<rparr>"

definition no_file_env :: env where
  "no_file_env =
     \<lparr>statSync = (\<lambda>f. Inl (Error ''ENOENT: no such file or directory'')),
      readFileSync = (\<lambda>f. Inl (Error ''ENOENT: no such file or directory'')),
      extname = plain_extname,
      safeLoad = example_yaml,
      newFunction = example_function\<rparr>"

definition host_env :: env where
  "host_env = file_env ''config.yaml'' 10 ''host: 127.0.0.1''"

definition port_env :: env where
  "port_env = file_env ''config.yaml'' 20 ''port: 3309''"

text \<open>The file emptied, so that the markup parser returns \<open>undefined\<close>.\<close>

definition empty_env :: env where
  "empty_env = file_env ''config.yaml'' 20 []"

text \<open>An executable configuration that throws \<open>null\<close>, and one with a computed key.\<close>

definition throw_env :: env where
  "throw_env = file_env ''config.js'' 20 ''module.exports = {}; throw null''"

definition proto_env :: env where
  "proto_env = file_env ''config.js'' 20 ''{ [`__proto__`]: 5, port: 3309 }''"

definition rising_envs :: "env list" where
  "rising_envs = [host_env, no_file_env, port_env]"

definition null_message_error :: exn where
  "null_message_error =
     Error (''Cannot read properties of null (reading '' @ [CHR 0x27] @ ''message'' @ [CHR 0x27] @ '')'')"

definition enoent :: exn where
  "enoent = Error ''ENOENT: no such file or directory''"

definition throwing_listener :: listener where
  "throwing_listener v = Some (Error ''boom'')"

definition quiet_listener :: listener where
  "quiet_listener v = None"

definition null_listener :: listener where
  "null_listener v = Some (Thrown JNull)"

definition no_listeners :: "string \<Rightarrow> listener list" where
  "no_listeners name = []"

definition quiet_listeners :: "string \<Rightarrow> listener list" where
  "quiet_listeners name = (if name = ''error'' then [quiet_listener] else [])"

definition throwing_listeners :: "string \<Rightarrow> listener list" where
  "throwing_listeners name = (if name = ''error'' then [throwing_listener] else [])"

definition update_throwing_listeners :: "string \<Rightarrow> listener list" where
  "update_throwing_listeners name =
     (if name = ''update'' then [throwing_listener]
      else if name = ''error'' then [quiet_listener] else [])"

definition update_null_listeners :: "string \<Rightarrow> listener list" where
  "update_null_listeners name =
     (if name = ''update'' then [null_listener]
      else if name = ''error'' then [quiet_listener] else [])"

definition no_options :: user_options where
  "no_options = \<lparr>u_interval = None, u_modifyTime = None, u_filename = None, u_debug = None,
                  u_onupdate = None, u_onerror = None\<rparr>"

definition quiet_options :: user_options where
  "quiet_options = no_options\<lparr>u_onerror := Some quiet_listener\<rparr>"

definition throwing_options :: user_options where
  "throwing_options =
     no_options\<lparr>u_onupdate := Some throwing_listener, u_onerror := Some quiet_listener\<rparr>"

definition override_options :: user_options where
  "override_options =
     no_options\<lparr>u_filename := Some ''config.yaml'', u_interval := Some 500, u_modifyTime := Some 10\<rparr>"

definition accessor :: "string \<Rightarrow> string \<times> descriptor" where
  "accessor key = (key, \<lparr>getter = key, setter = False, configurable = True\<rparr>)"

text \<open>The instance once \<open>host_env\<close> has been loaded, with the listeners given.\<close>

definition loaded :: "(string \<Rightarrow> listener list) \<Rightarrow> watcher" where
  "loaded ls =
     \<lparr>options = \<lparr>interval = 60000, modifyTime = 10, filename = ''config.yaml'', debug = False\<rparr>,
      config = [(''host'', JStr ''127.0.0.1'')],
      config_proto = None,
      listeners = ls,
      properties = [accessor ''host'']\<rparr>"

section \<open>Properties of the model\<close>

lemmas example_defs = file_env_def no_file_env_def host_env_def port_env_def plain_extname_def
  example_yaml_def example_function_def no_options_def throwing_listener_def quiet_listener_def
  accessor_def loaded_def no_listeners_def quiet_listeners_def throwing_listeners_def
  update_throwing_listeners_def throwing_options_def quiet_options_def override_options_def
  rising_envs_def enoent_def null_message_error_def empty_env_def throw_env_def proto_env_def null_listener_def
  update_null_listeners_def

lemmas model_defs = constructor_def initial_def assign_options_def update_def try_block_def
  parse_def toLowerCase_def lower_char_def emit_def on_def merge_keys_def define_properties_def
  get_member_def fire_timer_def read_property_def assign_member_def reaches_accessor_def
  set_prototype_def catch_trace_def Let_def

subsection \<open>The parsers' calls\<close>

lemma parse_action:
  "parse e f content = (a, r) \<Longrightarrow> \<not> is_timeout a \<and> \<not> is_emit a"
  by (auto simp: parse_def Let_def split: if_splits)

lemma parse_not_emit: "parse e f content \<noteq> (Emit name v, r)"
  by (auto simp: parse_def Let_def split: if_splits)

lemma indexOf_sublist: "(indexOf s n \<ge> 0) = sublist n s"
proof (induction s)
  case Nil
  then show ?case by simp
next
  case (Cons c cs)
  then show ?case
    by (auto simp: Let_def sublist_Cons_right)
qed

subsection \<open>Reading the message of an exception\<close>

text \<open>
  \<open>ex.message\<close> raises exactly when \<open>null\<close> or \<open>undefined\<close> has been thrown; any
  other thrown value has a message to read, if only \<open>undefined\<close>.
\<close>

lemma message_raises_iff:
  "(\<exists>ex'. message ex = Inl ex') = (ex = Thrown JUndefined \<or> ex = Thrown JNull)"
proof (cases ex)
  case (Error m)
  then show ?thesis by simp
next
  case (Unhandled v)
  then show ?thesis by simp
next
  case (Thrown v)
  then show ?thesis by (cases v) simp_all
qed

lemma message_readable_iff:
  "(\<exists>m. message ex = Inr m) = (ex \<noteq> Thrown JUndefined \<and> ex \<noteq> Thrown JNull)"
  using message_raises_iff [of ex] by (cases "message ex") auto

subsection \<open>Merging keys and defining accessors\<close>









lemma object_keys_Inr: "object_keys c = Inr ks \<Longrightarrow> ks = map fst (own_enumerable c)"
  by (cases c) auto

lemma object_keys_Inl:
  "c = JUndefined \<or> c = JNull \<Longrightarrow>
     object_keys c = Inl (Error ''Cannot convert undefined or null to object'')"
  by auto

lemma define_properties_lookup:
  "map_of (define_properties ks props) k =
     (if k \<in> set ks then Some \<lparr>getter = k, setter = False, configurable = True\<rparr> else map_of props k)"
  unfolding define_properties_def
  by (induction ks arbitrary: props) (auto simp: update_conv')

subsection \<open>What the body of the try leaves behind\<close>

lemma try_block_frame:
  "try_block e w = (w1, tr, r) \<Longrightarrow>
     listeners w1 = listeners w \<and> filename (options w1) = filename (options w) \<and>
     interval (options w1) = interval (options w) \<and> debug (options w1) = debug (options w)"
  by (auto simp: try_block_def Let_def split: sum.splits if_splits prod.splits)

lemma try_block_no_timeout:
  "try_block e w = (w1, tr, r) \<Longrightarrow> \<not> list_ex is_timeout tr"
  by (auto simp: try_block_def Let_def split: sum.splits if_splits prod.splits dest: parse_action)

lemma try_block_Some_Inr:
  assumes "statSync e (filename (options w)) = Inr mtime" "mtime \<noteq> modifyTime (options w)"
    "readFileSync e (filename (options w)) = Inr content"
    "parse e (filename (options w)) content = (a, Inr c)"
    "object_keys c = Inr keys"
  shows "try_block e w =
     (w\<lparr>options := (options w)\<lparr>modifyTime := mtime\<rparr>,
        config := fst (merge_keys c keys (config w, config_proto w)),
        config_proto := snd (merge_keys c keys (config w, config_proto w)),
        properties := define_properties
           (map fst (fst (merge_keys c keys (config w, config_proto w)))) (properties w)\<rparr>,
      [StatSync (filename (options w)), ReadFileSync (filename (options w)), a, Emit ''update'' c],
      (case call_listeners (listeners w ''update'') c of Some ex \<Rightarrow> Some ex | None \<Rightarrow> None))"
  using assms
  by (auto simp: try_block_def Let_def emit_def split: option.splits)

lemma try_block_nullish:
  assumes "statSync e (filename (options w)) = Inr mtime" "mtime \<noteq> modifyTime (options w)"
    "readFileSync e (filename (options w)) = Inr content"
    "parse e (filename (options w)) content = (a, Inr c)"
    "c = JUndefined \<or> c = JNull"
  shows "try_block e w =
     (w\<lparr>options := (options w)\<lparr>modifyTime := mtime\<rparr>\<rparr>,
      [StatSync (filename (options w)), ReadFileSync (filename (options w)), a],
      Some (Error ''Cannot convert undefined or null to object''))"
  using assms
  by (auto simp: try_block_def Let_def)

lemma try_block_throws:
  assumes "statSync e (filename (options w)) = Inl ex \<or>
           (\<exists>mtime. statSync e (filename (options w)) = Inr mtime \<and>
              mtime \<noteq> modifyTime (options w) \<and>
              (readFileSync e (filename (options w)) = Inl ex \<or>
               (\<exists>content. readFileSync e (filename (options w)) = Inr content \<and>
                  snd (parse e (filename (options w)) content) = Inl ex)))"
  shows "\<exists>tr. try_block e w = (w, tr, Some ex) \<and> filter is_emit tr = []"
  using assms
  by (auto simp: try_block_def Let_def split: sum.splits prod.splits dest: parse_action)


lemma try_block_update_emit:
  "try_block e w = (w1, tr, r) \<Longrightarrow> Emit ''update'' v \<in> set tr \<Longrightarrow>
     (\<exists>content a keys mtime. statSync e (filename (options w)) = Inr mtime \<and>
         mtime \<noteq> modifyTime (options w) \<and>
         readFileSync e (filename (options w)) = Inr content \<and>
         parse e (filename (options w)) content = (a, Inr v) \<and> object_keys v = Inr keys) \<and>
     filter is_emit tr = [Emit ''update'' v] \<and>
     r = call_listeners (listeners w ''update'') v"
  by (auto simp: try_block_def Let_def emit_def parse_not_emit
      split: sum.splits if_splits prod.splits option.splits dest: parse_action)

lemma try_block_emits:
  "try_block e w = (w1, tr, r) \<Longrightarrow> Emit name v \<in> set tr \<Longrightarrow> name = ''update''"
  by (auto simp: try_block_def Let_def parse_not_emit split: sum.splits if_splits prod.splits)

lemma try_block_starts_with_stat:
  "try_block e w = (w1, tr, r) \<Longrightarrow> \<exists>rest. tr = StatSync (filename (options w)) # rest"
  by (auto simp: try_block_def Let_def split: sum.splits if_splits prod.splits)

lemma try_block_modifyTime:
  "try_block e w = (w1, tr, r) \<Longrightarrow>
     modifyTime (options w1) =
       (case statSync e (filename (options w)) of
          Inl _ \<Rightarrow> modifyTime (options w)
        | Inr mtime \<Rightarrow>
            (case readFileSync e (filename (options w)) of
               Inl _ \<Rightarrow> modifyTime (options w)
             | Inr content \<Rightarrow>
                 (case snd (parse e (filename (options w)) content) of
                    Inl _ \<Rightarrow> modifyTime (options w)
                  | Inr c \<Rightarrow> mtime)))"
  by (auto simp: try_block_def Let_def split: sum.splits if_splits prod.splits)


lemma try_block_reload_state:
  assumes tb: "try_block e w = (w', tr1, r1)"
   and h: "statSync e (filename (options w)) = Inr mtime" "mtime \<noteq> modifyTime (options w)"
       "readFileSync e (filename (options w)) = Inr content"
       "parse e (filename (options w)) content = (a, Inr c)" "object_keys c = Inr keys"
  shows "config w' = fst (merge_keys c (map fst (own_enumerable c)) (config w, config_proto w))"
    and "properties w' = define_properties (map fst (config w')) (properties w)"
proof -
  have k: "keys = map fst (own_enumerable c)" using h(5) by (rule object_keys_Inr)
  from try_block_Some_Inr [OF h] tb
  have w': "w' = w\<lparr>options := (options w)\<lparr>modifyTime := mtime\<rparr>,
        config := fst (merge_keys c keys (config w, config_proto w)),
        config_proto := snd (merge_keys c keys (config w, config_proto w)),
        properties := define_properties
           (map fst (fst (merge_keys c keys (config w, config_proto w)))) (properties w)\<rparr>"
    by simp
  then have "config w' = fst (merge_keys c keys (config w, config_proto w))"
    by simp
  then show "config w' = fst (merge_keys c (map fst (own_enumerable c)) (config w, config_proto w))"
    by (simp only: k)
  from w' show "properties w' = define_properties (map fst (config w')) (properties w)"
    by simp
qed

subsection \<open>One cycle\<close>

lemma update_fst: "update e w = (w', tr, r) \<Longrightarrow> \<exists>tr1 r1. try_block e w = (w', tr1, r1)"
  by (auto simp: update_def Let_def split: sum.splits if_splits prod.splits option.splits)

lemma update_frame:
  "update e w = (w', tr, r) \<Longrightarrow>
     listeners w' = listeners w \<and> filename (options w') = filename (options w) \<and>
     interval (options w') = interval (options w) \<and> debug (options w') = debug (options w)"
  by (blast dest: update_fst try_block_frame)

lemma update_same_mtime:
  assumes "statSync e (filename (options w)) = Inr mtime"
    and "modifyTime (options w) = mtime"
  shows "update e w = (w, [StatSync (filename (options w)), SetTimeout (interval (options w))], None)"
  using assms by (simp add: update_def try_block_def)

lemma update_catch:
  assumes "try_block e w = (w1, tr1, Some ex)"
  shows "update e w =
     (case message ex of
        Inl ex' \<Rightarrow> (w1, tr1, Some ex')
      | Inr m \<Rightarrow>
          (case emit w ''error'' m of
             Inl ex' \<Rightarrow> (w1, tr1 @ [Emit ''error'' m], Some ex')
           | Inr _ \<Rightarrow> (w1, tr1 @ catch_trace w m, None)))"
  using assms try_block_frame [OF assms]
  by (simp add: update_def Let_def emit_def catch_trace_def split: sum.splits)

lemma update_no_catch:
  assumes "try_block e w = (w1, tr1, None)"
  shows "update e w = (w1, tr1 @ [SetTimeout (interval (options w))], None)"
  using assms try_block_frame [OF assms]
  by (simp add: update_def)

lemma update_trace_shape:
  assumes "update e w = (w', tr, r)"
  shows "\<exists>tr1 r1. try_block e w = (w', tr1, r1) \<and>
     (case r1 of
        None \<Rightarrow> tr = tr1 @ [SetTimeout (interval (options w))] \<and> r = None
      | Some ex \<Rightarrow>
          (case message ex of
             Inl ex' \<Rightarrow> tr = tr1 \<and> r = Some ex'
           | Inr m \<Rightarrow>
               (case emit w ''error'' m of
                  Inl ex' \<Rightarrow> tr = tr1 @ [Emit ''error'' m] \<and> r = Some ex'
                | Inr _ \<Rightarrow> r = None \<and> tr = tr1 @ catch_trace w m)))"
proof -
  obtain w1 tr1 r1 where tb: "try_block e w = (w1, tr1, r1)"
    by (metis prod_cases3)
  show ?thesis
  proof (cases r1)
    case None
    with tb assms update_no_catch [of e w w1 tr1] show ?thesis by auto
  next
    case (Some ex)
    with tb assms update_catch [of e w w1 tr1 ex] show ?thesis
      by (auto split: sum.splits)
  qed
qed

lemma update_trace_cases:
  assumes "update e w = (w', tr, r)"
  shows "\<exists>tr1 r1. try_block e w = (w', tr1, r1) \<and>
     (tr = tr1 \<or> tr = tr1 @ [SetTimeout (interval (options w))] \<or>
      (\<exists>m. tr = tr1 @ [Emit ''error'' m]) \<or> (\<exists>m. tr = tr1 @ catch_trace w m))"
proof -
  obtain w1 tr1 r1 where tb: "try_block e w = (w1, tr1, r1)"
    by (metis prod_cases3)
  show ?thesis
  proof (cases r1)
    case None
    with tb assms update_no_catch [of e w w1 tr1] show ?thesis by auto
  next
    case (Some ex)
    note upd = update_catch [of e w w1 tr1 ex]
    show ?thesis
    proof (cases "message ex")
      case (Inl ex')
      with Some tb assms upd show ?thesis by auto
    next
      case (Inr m)
      show ?thesis
      proof (cases "emit w ''error'' m")
        case (Inl ex')
        with Inr Some tb assms upd show ?thesis by auto
      next
        case (Inr b)
        with \<open>message ex = Inr m\<close> Some tb assms upd show ?thesis by auto
      qed
    qed
  qed
qed

lemma last_catch_trace: "last (tr @ catch_trace w m) = SetTimeout (interval (options w))"
  by (simp add: catch_trace_def)

lemma emits_catch_trace: "filter is_emit (catch_trace w m) = [Emit ''error'' m]"
  by (simp add: catch_trace_def)

lemma update_components:
  "update e w = (fst (update e w), fst (snd (update e w)), snd (snd (update e w)))"
  by simp

subsection \<open>The examples, run\<close>

text \<open>
  Constructing on \<open>host_env\<close> without options loads the file, exposes \<open>host\<close> and
  schedules the next poll after the default 60000 ms.
\<close>

lemma first_load:
  "constructor host_env ''config.yaml'' no_options =
     (loaded (\<lambda>_. []),
      [StatSync ''config.yaml'', ReadFileSync ''config.yaml'', SafeLoad ''host: 127.0.0.1'',
       Emit ''update'' (JObj [(''host'', JStr ''127.0.0.1'')]), SetTimeout 60000],
      None)"
  by (simp add: example_defs model_defs)

text \<open>The next cycle finds the file rewritten to \<open>port: 3309\<close>.\<close>

lemma port_reload:
  "snd (update port_env (loaded no_listeners)) =
     ([StatSync ''config.yaml'', ReadFileSync ''config.yaml'', SafeLoad ''port: 3309'',
       Emit ''update'' (JObj [(''port'', JNum 3309)]), SetTimeout 60000], None)"
  "config (fst (update port_env (loaded no_listeners))) =
     [(''host'', JStr ''127.0.0.1''), (''port'', JNum 3309)]"
  "statSync port_env (filename (options (loaded no_listeners))) = Inr 20"
  "20 \<noteq> modifyTime (options (loaded no_listeners))"
  "readFileSync port_env (filename (options (loaded no_listeners))) = Inr ''port: 3309''"
  "parse port_env (filename (options (loaded no_listeners))) ''port: 3309'' =
     (SafeLoad ''port: 3309'', Inr (JObj [(''port'', JNum 3309)]))"
  "object_keys (JObj [(''port'', JNum 3309)]) = Inr [''port'']"
  by (simp_all add: example_defs model_defs)

section \<open>The claims\<close>

subsection \<open>C1: a failed cycle reports the error; what it keeps\<close>

text \<open>
  C1, as the code has it. In a cycle in which the stat, the read or the parser throws
  an exception \<open>ex\<close> whose \<open>message\<close> can be read as \<open>m\<close>, the watcher emits exactly
  one event, an \<open>'error'\<close> event carrying \<open>m\<close>, and the instance is left as it was
  before the cycle: the configuration and the stored modification time in particular.
  In a cycle in which the parser returns \<open>undefined\<close> or \<open>null\<close>, the watcher emits
  exactly one event, an \<open>'error'\<close> event carrying the message of the \<open>TypeError\<close> of
  \<open>Object.keys\<close>, and the configuration is unchanged, but the stored modification time
  is already the new time of the file.
\<close>

theorem failed_cycle_keeps_state:
  "((statSync e (filename (options w)) = Inl ex \<or>
     (\<exists>mtime. statSync e (filename (options w)) = Inr mtime \<and>
        mtime \<noteq> modifyTime (options w) \<and>
        (readFileSync e (filename (options w)) = Inl ex \<or>
         (\<exists>content. readFileSync e (filename (options w)) = Inr content \<and>
            snd (parse e (filename (options w)) content) = Inl ex)))) \<and>
    message ex = Inr m
    \<longrightarrow> (\<exists>tr r. update e w = (w, tr, r) \<and> filter is_emit tr = [Emit ''error'' m])) \<and>
   (statSync e (filename (options w)) = Inr t \<and> t \<noteq> modifyTime (options w) \<and>
    readFileSync e (filename (options w)) = Inr src \<and>
    parse e (filename (options w)) src = (a, Inr c) \<and> (c = JUndefined \<or> c = JNull)
    \<longrightarrow> (\<exists>w' tr r. update e w = (w', tr, r) \<and>
           filter is_emit tr = [Emit ''error'' (JStr ''Cannot convert undefined or null to object'')] \<and>
           config w' = config w \<and> modifyTime (options w') = t))"
proof (intro conjI impI)
  assume h: "(statSync e (filename (options w)) = Inl ex \<or>
     (\<exists>mtime. statSync e (filename (options w)) = Inr mtime \<and>
        mtime \<noteq> modifyTime (options w) \<and>
        (readFileSync e (filename (options w)) = Inl ex \<or>
         (\<exists>content. readFileSync e (filename (options w)) = Inr content \<and>
            snd (parse e (filename (options w)) content) = Inl ex)))) \<and>
    message ex = Inr m"
  then obtain tr1 where tb: "try_block e w = (w, tr1, Some ex)" and ne: "filter is_emit tr1 = []"
    using try_block_throws [of e w ex] by blast
  from h update_catch [OF tb] ne
  show "\<exists>tr r. update e w = (w, tr, r) \<and> filter is_emit tr = [Emit ''error'' m]"
    by (auto simp: emits_catch_trace split: sum.splits)
next
  assume h: "statSync e (filename (options w)) = Inr t \<and> t \<noteq> modifyTime (options w) \<and>
    readFileSync e (filename (options w)) = Inr src \<and>
    parse e (filename (options w)) src = (a, Inr c) \<and> (c = JUndefined \<or> c = JNull)"
  then have tb: "try_block e w =
     (w\<lparr>options := (options w)\<lparr>modifyTime := t\<rparr>\<rparr>,
      [StatSync (filename (options w)), ReadFileSync (filename (options w)), a],
      Some (Error ''Cannot convert undefined or null to object''))"
    using try_block_nullish [of e w t src a c] by blast
  from h have "\<not> is_emit a" by (blast dest: parse_action)
  with update_catch [OF tb]
  show "\<exists>w' tr r. update e w = (w', tr, r) \<and>
           filter is_emit tr = [Emit ''error'' (JStr ''Cannot convert undefined or null to object'')] \<and>
           config w' = config w \<and> modifyTime (options w') = t"
    by (auto simp: emits_catch_trace split: sum.splits)
qed

text \<open>
  The file has disappeared between two polls; the file has been emptied between two
  polls.
\<close>

theorem failed_cycle_keeps_state_witness:
  "statSync no_file_env (filename (options (loaded quiet_listeners))) =
     Inl (Error ''ENOENT: no such file or directory'') \<and>
   message (Error ''ENOENT: no such file or directory'') = Inr (JStr ''ENOENT: no such file or directory'') \<and>
   fst (update no_file_env (loaded quiet_listeners)) = loaded quiet_listeners \<and>
   filter is_emit (fst (snd (update no_file_env (loaded quiet_listeners)))) =
     [Emit ''error'' (JStr ''ENOENT: no such file or directory'')] \<and>
   parse empty_env (filename (options (loaded quiet_listeners))) [] = (SafeLoad [], Inr JUndefined) \<and>
   filter is_emit (fst (snd (update empty_env (loaded quiet_listeners)))) =
     [Emit ''error'' (JStr ''Cannot convert undefined or null to object'')] \<and>
   config (fst (update empty_env (loaded quiet_listeners))) = config (loaded quiet_listeners) \<and>
   modifyTime (options (fst (update empty_env (loaded quiet_listeners)))) = 20"
proof -
  have h1: "statSync no_file_env (filename (options (loaded quiet_listeners))) =
             Inl (Error ''ENOENT: no such file or directory'')"
    "message (Error ''ENOENT: no such file or directory'') = Inr (JStr ''ENOENT: no such file or directory'')"
    by (simp_all add: example_defs)
  have h2: "statSync empty_env (filename (options (loaded quiet_listeners))) = Inr 20"
    "20 \<noteq> modifyTime (options (loaded quiet_listeners))"
    "readFileSync empty_env (filename (options (loaded quiet_listeners))) = Inr []"
    "parse empty_env (filename (options (loaded quiet_listeners))) [] = (SafeLoad [], Inr JUndefined)"
    by (simp_all add: example_defs model_defs)
  note inst = failed_cycle_keeps_state
         [of no_file_env "loaded quiet_listeners" "Error ''ENOENT: no such file or directory''"
             "JStr ''ENOENT: no such file or directory''" 0 "[]" "SafeLoad []" JNull]
     failed_cycle_keeps_state
         [of empty_env "loaded quiet_listeners" _ _ 20 "[]" "SafeLoad []" JUndefined]
  from inst(1) h1 have 1: "fst (update no_file_env (loaded quiet_listeners)) = loaded quiet_listeners \<and>
     filter is_emit (fst (snd (update no_file_env (loaded quiet_listeners)))) =
       [Emit ''error'' (JStr ''ENOENT: no such file or directory'')]"
    by auto
  from inst(2) h2 have 2: "filter is_emit (fst (snd (update empty_env (loaded quiet_listeners)))) =
     [Emit ''error'' (JStr ''Cannot convert undefined or null to object'')] \<and>
   config (fst (update empty_env (loaded quiet_listeners))) = config (loaded quiet_listeners) \<and>
   modifyTime (options (fst (update empty_env (loaded quiet_listeners)))) = 20"
    by auto
  from 1 2 h1 h2 show ?thesis by simp
qed

text \<open>
  Against C1 as stated: the emptied file makes the cycle fail with an \<open>'error'\<close>
  event while the stored time moves from 10 to 20; and an executable configuration that
  throws \<open>null\<close> makes the cycle fail without any \<open>'error'\<close> event, the \<open>TypeError\<close> of
  \<open>ex.message\<close> leaving \<open>update()\<close>.
\<close>

theorem parser_failures_diverge:
  "snd (parse empty_env ''config.yaml'' []) = Inr JUndefined \<and>
   filter is_emit (fst (snd (update empty_env (loaded quiet_listeners)))) =
     [Emit ''error'' (JStr ''Cannot convert undefined or null to object'')] \<and>
   modifyTime (options (loaded quiet_listeners)) = 10 \<and>
   modifyTime (options (fst (update empty_env (loaded quiet_listeners)))) = 20 \<and>
   snd (parse throw_env ''config.js'' ''module.exports = {}; throw null'') = Inl (Thrown JNull) \<and>
   snd (constructor throw_env ''config.js'' quiet_options) =
     ([StatSync ''config.js'', ReadFileSync ''config.js'',
       NewFunction ''var module = {exports: {}};module.exports = {}; throw null;return module.exports''],
      Some null_message_error)"
  by (simp add: example_defs model_defs)

subsection \<open>C2: keys accumulate\<close>




subsection \<open>C3: an unchanged modification time skips the reload\<close>

text \<open>
  C3. When the stat succeeds and returns the stored modification time, the cycle
  consists of that stat and of the scheduling of the next poll: nothing is read, nothing
  is parsed, no event is emitted, and the instance is unchanged.
\<close>

theorem same_mtime_skips:
  assumes "statSync e (filename (options w)) = Inr mtime"
    and "modifyTime (options w) = mtime"
  shows "update e w = (w, [StatSync (filename (options w)), SetTimeout (interval (options w))], None)"
  using assms by (rule update_same_mtime)

theorem same_mtime_skips_witness:
  "statSync host_env (filename (options (loaded no_listeners))) = Inr 10 \<and>
   modifyTime (options (loaded no_listeners)) = 10 \<and>
   update host_env (loaded no_listeners) =
     (loaded no_listeners, [StatSync ''config.yaml'', SetTimeout 60000], None)"
proof -
  have h: "statSync host_env (filename (options (loaded no_listeners))) = Inr 10"
    "modifyTime (options (loaded no_listeners)) = 10"
    by (simp_all add: example_defs)
  show ?thesis using same_mtime_skips [OF h] by (simp add: example_defs)
qed

subsection \<open>C4: every key of the configuration is a live read-only property\<close>

text \<open>
  C4. After a successful reload, every key of the merged configuration, those of
  earlier cycles included, is an accessor property of the instance whose read returns the
  value the configuration holds for that key, and whose descriptor has a getter and no
  setter.
\<close>

theorem accessors_are_live:
  assumes "update e w = (w', tr, r)"
    and "statSync e (filename (options w)) = Inr mtime" and "mtime \<noteq> modifyTime (options w)"
    and "readFileSync e (filename (options w)) = Inr content"
    and "parse e (filename (options w)) content = (a, Inr c)" and "object_keys c = Inr keys"
  shows "\<forall>key \<in> fst ` set (config w').
           read_property w' key = map_of (config w') key \<and>
           map_of (properties w') key = Some \<lparr>getter = key, setter = False, configurable = True\<rparr>"
proof
  fix key assume k: "key \<in> fst ` set (config w')"
  from assms(1) obtain tr1 r1 where tb: "try_block e w = (w', tr1, r1)"
    by (blast dest: update_fst)
  have p: "properties w' = define_properties (map fst (config w')) (properties w)"
    using tb assms(2-6) by (rule try_block_reload_state(2))
  from k have "map_of (config w') key \<noteq> None"
    by (simp add: map_of_eq_None_iff)
  then obtain v where v: "map_of (config w') key = Some v" by blast
  from k have "map_of (properties w') key = Some \<lparr>getter = key, setter = False, configurable = True\<rparr>"
    by (simp add: p define_properties_lookup)
  with v show "read_property w' key = map_of (config w') key \<and>
           map_of (properties w') key = Some \<lparr>getter = key, setter = False, configurable = True\<rparr>"
    by (simp add: read_property_def)
qed

text \<open>
  \<open>host\<close>, merged one cycle earlier, reads as before; \<open>port\<close> is new.
\<close>

theorem accessors_are_live_witness:
  "read_property (fst (update port_env (loaded no_listeners))) ''host'' = Some (JStr ''127.0.0.1'') \<and>
   read_property (fst (update port_env (loaded no_listeners))) ''port'' = Some (JNum 3309) \<and>
   map_of (properties (fst (update port_env (loaded no_listeners)))) ''host'' =
     Some \<lparr>getter = ''host'', setter = False, configurable = True\<rparr>"
proof -
  have k: "''host'' \<in> fst ` set (config (fst (update port_env (loaded no_listeners))))"
     "''port'' \<in> fst ` set (config (fst (update port_env (loaded no_listeners))))"
    by (simp_all add: port_reload(2))
  from accessors_are_live [OF update_components [of port_env "loaded no_listeners"] port_reload(3-7)] k
  show ?thesis
    by (auto simp: port_reload(2))
qed

subsection \<open>C5: the update event carries the parsed mapping\<close>

text \<open>
  C5. An \<open>'update'\<close> event emitted by a cycle carries the value the parser returned
  for the text read in that cycle, and the cycle emits no other \<open>'update'\<close> event. The
  merged configuration is not what is sent.
\<close>

theorem update_event_payload:
  assumes "update e w = (w', tr, r)" and "Emit ''update'' v \<in> set tr"
  shows "(\<exists>content a. readFileSync e (filename (options w)) = Inr content \<and>
            parse e (filename (options w)) content = (a, Inr v)) \<and>
         filter (\<lambda>x. \<exists>u. x = Emit ''update'' u) tr = [Emit ''update'' v]"
proof -
  from update_trace_cases [OF assms(1)] obtain tr1 r1 where
    tb: "try_block e w = (w', tr1, r1)" and
    sh: "tr = tr1 \<or> tr = tr1 @ [SetTimeout (interval (options w))] \<or>
         (\<exists>m. tr = tr1 @ [Emit ''error'' m]) \<or> (\<exists>m. tr = tr1 @ catch_trace w m)"
    by blast
  from sh assms(2) have m: "Emit ''update'' v \<in> set tr1"
    by (auto simp: catch_trace_def split: if_splits)
  have f1: "filter (\<lambda>x. \<exists>u. x = Emit ''update'' u) tr1 = filter is_emit tr1"
    by (rule filter_cong) (auto elim: is_emit.elims dest: try_block_emits [OF tb])
  from sh have "filter (\<lambda>x. \<exists>u. x = Emit ''update'' u) tr = filter (\<lambda>x. \<exists>u. x = Emit ''update'' u) tr1"
    by (auto simp: catch_trace_def)
  with f1 try_block_update_emit [OF tb m] show ?thesis by auto
qed

text \<open>
  The event of the second cycle carries \<open>port\<close> alone, while the configuration holds
  \<open>host\<close> and \<open>port\<close>.
\<close>

theorem update_event_payload_witness:
  "Emit ''update'' (JObj [(''port'', JNum 3309)]) \<in> set (fst (snd (update port_env (loaded no_listeners)))) \<and>
   parse port_env ''config.yaml'' ''port: 3309'' =
     (SafeLoad ''port: 3309'', Inr (JObj [(''port'', JNum 3309)])) \<and>
   config (fst (update port_env (loaded no_listeners))) =
     [(''host'', JStr ''127.0.0.1''), (''port'', JNum 3309)] \<and>
   filter (\<lambda>x. \<exists>u. x = Emit ''update'' u) (fst (snd (update port_env (loaded no_listeners)))) =
     [Emit ''update'' (JObj [(''port'', JNum 3309)])]"
proof -
  have m: "Emit ''update'' (JObj [(''port'', JNum 3309)]) \<in>
             set (fst (snd (update port_env (loaded no_listeners))))"
    using port_reload(1) by (simp add: snd_def split: prod.splits)
  have p: "parse port_env ''config.yaml'' ''port: 3309'' =
             (SafeLoad ''port: 3309'', Inr (JObj [(''port'', JNum 3309)]))"
    using port_reload(6) by (simp add: loaded_def)
  from update_event_payload [OF update_components [of port_env "loaded no_listeners"] m] m p port_reload(2)
  show ?thesis by blast
qed

subsection \<open>C6: the parser is chosen by the extension\<close>

text \<open>
  C6. When the lower-cased extension of the file name is \<open>.yaml\<close>, \<open>.yml\<close> or
  \<open>.json\<close>, the text goes to \<open>yaml.safeLoad\<close>. Otherwise, a text that contains
  \<open>module.exports\<close> is evaluated as a module body whose \<open>module.exports\<close> is returned, and
  any other text is evaluated as one parenthesised expression.
\<close>

theorem parse_dispatch:
  "(toLowerCase (extname e f) \<in> {''.yaml'', ''.yml'', ''.json''} \<longrightarrow>
      parse e f content = (SafeLoad content, safeLoad e content)) \<and>
   (toLowerCase (extname e f) \<notin> {''.yaml'', ''.yml'', ''.json''} \<and>
    sublist ''module.exports'' content \<longrightarrow>
      parse e f content =
        (NewFunction (''var module = {exports: {}};'' @ content @ '';return module.exports''),
         newFunction e (''var module = {exports: {}};'' @ content @ '';return module.exports''))) \<and>
   (toLowerCase (extname e f) \<notin> {''.yaml'', ''.yml'', ''.json''} \<and>
    \<not> sublist ''module.exports'' content \<longrightarrow>
      parse e f content =
        (NewFunction (''return ('' @ content @ '')''), newFunction e (''return ('' @ content @ '')'')))"
  unfolding parse_def Let_def indexOf_sublist by simp

theorem parse_dispatch_witness:
  "toLowerCase (extname host_env ''test1.JSON'') = ''.json'' \<and>
   parse host_env ''test1.JSON'' ''port: 3309'' =
     (SafeLoad ''port: 3309'', Inr (JObj [(''port'', JNum 3309)])) \<and>
   toLowerCase (extname host_env ''test3.js'') = ''.js'' \<and>
   sublist ''module.exports'' ''module.exports = { port: 3309 }'' \<and>
   parse host_env ''test3.js'' ''module.exports = { port: 3309 }'' =
     (NewFunction ''var module = {exports: {}};module.exports = { port: 3309 };return module.exports'',
      Inr (JObj [(''port'', JNum 3309)])) \<and>
   toLowerCase (extname host_env ''test2-1.config'') = ''.config'' \<and>
   \<not> sublist ''module.exports'' ''{ port: 3309 }'' \<and>
   parse host_env ''test2-1.config'' ''{ port: 3309 }'' =
     (NewFunction ''return ({ port: 3309 })'', Inr (JObj [(''port'', JNum 3309)]))"
proof -
  have e: "toLowerCase (extname host_env ''test1.JSON'') = ''.json''"
    "toLowerCase (extname host_env ''test3.js'') = ''.js''"
    "toLowerCase (extname host_env ''test2-1.config'') = ''.config''"
    by (simp_all add: example_defs) code_simp+
  have s: "sublist ''module.exports'' ''module.exports = { port: 3309 }''"
    "\<not> sublist ''module.exports'' ''{ port: 3309 }''"
    unfolding indexOf_sublist [symmetric] by simp_all
  have v: "safeLoad host_env ''port: 3309'' = Inr (JObj [(''port'', JNum 3309)])"
    "newFunction host_env
       ''var module = {exports: {}};module.exports = { port: 3309 };return module.exports'' =
     Inr (JObj [(''port'', JNum 3309)])"
    "newFunction host_env ''return ({ port: 3309 })'' = Inr (JObj [(''port'', JNum 3309)])"
    by (simp_all add: example_defs)
  from parse_dispatch [of host_env "''test1.JSON''" "''port: 3309''"]
    parse_dispatch [of host_env "''test3.js''" "''module.exports = { port: 3309 }''"]
    parse_dispatch [of host_env "''test2-1.config''" "''{ port: 3309 }''"]
    e s v
  show ?thesis by simp
qed

subsection \<open>C7: errors without an error listener\<close>

text \<open>
  C7, as the code has it. The first load runs inside the constructor, and without an
  \<open>onerror\<close> handler an error of that load is thrown to the caller of the
  constructor. A later cycle goes through the same \<open>emit\<close>: without an
  \<open>'error'\<close> listener its error is thrown out of \<open>update()\<close> and out of the timer
  callback, uncaught, and no next poll is scheduled. Only with an \<open>'error'\<close> listener
  that returns does a failed cycle end normally and schedule the next poll.
\<close>

theorem unhandled_error_propagates:
  "(u_onerror uo = None \<and> try_block e (initial fname uo) = (w1, tr1, Some ex) \<longrightarrow>
      (case message ex of
         Inr m \<Rightarrow> constructor e fname uo = (w1, tr1 @ [Emit ''error'' m], Some (Unhandled m))
       | Inl ex' \<Rightarrow> constructor e fname uo = (w1, tr1, Some ex'))) \<and>
   (listeners w ''error'' = [] \<and> try_block e w = (w2, tr2, Some ex) \<longrightarrow>
      (case message ex of
         Inr m \<Rightarrow> fire_timer e w = Crashed (Unhandled m) (tr2 @ [Emit ''error'' m]) \<and>
                  \<not> list_ex is_timeout (tr2 @ [Emit ''error'' m])
       | Inl ex' \<Rightarrow> fire_timer e w = Crashed ex' tr2 \<and> \<not> list_ex is_timeout tr2)) \<and>
   (listeners w ''error'' \<noteq> [] \<and> message ex = Inr m \<and>
    call_listeners (listeners w ''error'') m = None \<and>
    try_block e w = (w2, tr2, Some ex) \<longrightarrow>
      (\<exists>tr. fire_timer e w = Running w2 tr \<and> last tr = SetTimeout (interval (options w))))"
proof (intro conjI impI)
  assume a: "u_onerror uo = None \<and> try_block e (initial fname uo) = (w1, tr1, Some ex)"
  then have l: "listeners (initial fname uo) ''error'' = []"
    by (auto simp: initial_def on_def Let_def split: option.splits)
  from a have tb: "try_block e (initial fname uo) = (w1, tr1, Some ex)" by simp
  show "case message ex of
         Inr m \<Rightarrow> constructor e fname uo = (w1, tr1 @ [Emit ''error'' m], Some (Unhandled m))
       | Inl ex' \<Rightarrow> constructor e fname uo = (w1, tr1, Some ex')"
    using update_catch [OF tb] l
    by (simp add: constructor_def emit_def split: sum.splits)
next
  assume a: "listeners w ''error'' = [] \<and> try_block e w = (w2, tr2, Some ex)"
  then have tb: "try_block e w = (w2, tr2, Some ex)" and l: "listeners w ''error'' = []"
    by simp_all
  show "case message ex of
         Inr m \<Rightarrow> fire_timer e w = Crashed (Unhandled m) (tr2 @ [Emit ''error'' m]) \<and>
                  \<not> list_ex is_timeout (tr2 @ [Emit ''error'' m])
       | Inl ex' \<Rightarrow> fire_timer e w = Crashed ex' tr2 \<and> \<not> list_ex is_timeout tr2"
    using update_catch [OF tb] l try_block_no_timeout [OF tb]
    by (simp add: fire_timer_def emit_def split: sum.splits)
next
  assume a: "listeners w ''error'' \<noteq> [] \<and> message ex = Inr m \<and>
    call_listeners (listeners w ''error'') m = None \<and>
    try_block e w = (w2, tr2, Some ex)"
  then have tb: "try_block e w = (w2, tr2, Some ex)" by simp
  from a update_catch [OF tb]
  have "fire_timer e w = Running w2 (tr2 @ catch_trace w m)"
    by (simp add: fire_timer_def emit_def)
  then show "\<exists>tr. fire_timer e w = Running w2 tr \<and> last tr = SetTimeout (interval (options w))"
    by (simp add: last_catch_trace)
qed

text \<open>
  The file is missing: at construction without options, at a later poll without
  listener, and at a later poll with a listener that returns.
\<close>

theorem unhandled_error_propagates_witness:
  "constructor no_file_env ''config.yaml'' no_options =
     (initial ''config.yaml'' no_options,
      [StatSync ''config.yaml'', Emit ''error'' (JStr ''ENOENT: no such file or directory'')],
      Some (Unhandled (JStr ''ENOENT: no such file or directory''))) \<and>
   fire_timer no_file_env (loaded no_listeners) =
     Crashed (Unhandled (JStr ''ENOENT: no such file or directory''))
       [StatSync ''config.yaml'', Emit ''error'' (JStr ''ENOENT: no such file or directory'')] \<and>
   fire_timer no_file_env (loaded quiet_listeners) =
     Running (loaded quiet_listeners)
       [StatSync ''config.yaml'', Emit ''error'' (JStr ''ENOENT: no such file or directory''),
        SetTimeout 60000]"
proof -
  have a: "u_onerror no_options = None \<and>
    try_block no_file_env (initial ''config.yaml'' no_options) =
       (initial ''config.yaml'' no_options, [StatSync ''config.yaml''], Some enoent)"
    by (simp add: example_defs initial_def assign_options_def try_block_def)
  have b: "listeners (loaded no_listeners) ''error'' = [] \<and>
    try_block no_file_env (loaded no_listeners) =
       (loaded no_listeners, [StatSync ''config.yaml''], Some enoent)"
    by (simp add: example_defs try_block_def)
  have m: "message enoent = Inr (JStr ''ENOENT: no such file or directory'')"
    by (simp add: enoent_def)
  have c: "listeners (loaded quiet_listeners) ''error'' \<noteq> [] \<and>
    message enoent = Inr (JStr ''ENOENT: no such file or directory'') \<and>
    call_listeners (listeners (loaded quiet_listeners) ''error'')
      (JStr ''ENOENT: no such file or directory'') = None \<and>
    try_block no_file_env (loaded quiet_listeners) =
       (loaded quiet_listeners, [StatSync ''config.yaml''], Some enoent)"
    by (simp add: example_defs try_block_def)
  have r: "fire_timer no_file_env (loaded quiet_listeners) =
     Running (loaded quiet_listeners)
       [StatSync ''config.yaml'', Emit ''error'' (JStr ''ENOENT: no such file or directory''),
        SetTimeout 60000]"
    by (simp add: example_defs model_defs)
  note T1 = unhandled_error_propagates
         [of no_options no_file_env "''config.yaml''" "initial ''config.yaml'' no_options"
             "[StatSync ''config.yaml'']" enoent "loaded no_listeners" "loaded no_listeners"
             "[StatSync ''config.yaml'']" "JStr ''ENOENT: no such file or directory''"]
  note T2 = unhandled_error_propagates
         [of no_options no_file_env "''config.yaml''" "initial ''config.yaml'' no_options"
             "[StatSync ''config.yaml'']" enoent "loaded quiet_listeners" "loaded quiet_listeners"
             "[StatSync ''config.yaml'']" "JStr ''ENOENT: no such file or directory''"]
  from T1 [THEN conjunct1, THEN mp, OF a] m
  have 1: "constructor no_file_env ''config.yaml'' no_options =
     (initial ''config.yaml'' no_options,
      [StatSync ''config.yaml'', Emit ''error'' (JStr ''ENOENT: no such file or directory'')],
      Some (Unhandled (JStr ''ENOENT: no such file or directory'')))"
    by simp
  from T1 [THEN conjunct2, THEN conjunct1, THEN mp, OF b] m
  have 2: "fire_timer no_file_env (loaded no_listeners) =
     Crashed (Unhandled (JStr ''ENOENT: no such file or directory''))
       [StatSync ''config.yaml'', Emit ''error'' (JStr ''ENOENT: no such file or directory'')]"
    by simp
  note 3 = T2 [THEN conjunct2, THEN conjunct2, THEN mp, OF c]
  from 1 2 r 3 show ?thesis by simp
qed

text \<open>
  Against C7 as stated: an instance constructed without options on a file that loads,
  then polled once the file is gone. The timer callback ends in an uncaught exception.
\<close>

theorem later_error_crashes:
  "snd (snd (constructor host_env ''config.yaml'' no_options)) = None \<and>
   listeners (fst (constructor host_env ''config.yaml'' no_options)) ''error'' = [] \<and>
   fire_timer no_file_env (fst (constructor host_env ''config.yaml'' no_options)) =
     Crashed (Unhandled (JStr ''ENOENT: no such file or directory''))
       [StatSync ''config.yaml'', Emit ''error'' (JStr ''ENOENT: no such file or directory'')]"
  by (simp add: example_defs model_defs)

subsection \<open>C8: exceptions raised by handlers\<close>

text \<open>
  C8, as the code has it. An exception raised by an \<open>'error'\<close> listener leaves
  \<open>update()\<close> and no timer is scheduled. An exception raised by an \<open>'update'\<close>
  listener is raised inside the \<open>try\<close> and caught. When its \<open>message\<close> can be read,
  that message is emitted as an \<open>'error'\<close> event, and when an \<open>'error'\<close> listener
  takes that event and returns, the cycle ends normally with the next poll scheduled.
  When the listener has thrown \<open>null\<close> or \<open>undefined\<close>, reading the message raises
  inside the \<open>catch\<close>: no \<open>'error'\<close> event is emitted, the \<open>TypeError\<close> leaves
  \<open>update()\<close> and no timer is scheduled.
\<close>

theorem handler_exceptions:
  assumes "update e w = (w', tr, r)"
  shows "(\<forall>v ex. Emit ''error'' v \<in> set tr \<and> call_listeners (listeners w ''error'') v = Some ex
            \<longrightarrow> r = Some ex \<and> \<not> list_ex is_timeout tr) \<and>
         (\<forall>c ex m. Emit ''update'' c \<in> set tr \<and>
                   call_listeners (listeners w ''update'') c = Some ex \<and> message ex = Inr m
            \<longrightarrow> Emit ''error'' m \<in> set tr \<and>
                (listeners w ''error'' \<noteq> [] \<and> call_listeners (listeners w ''error'') m = None
                   \<longrightarrow> r = None \<and> last tr = SetTimeout (interval (options w)))) \<and>
         (\<forall>c ex ex'. Emit ''update'' c \<in> set tr \<and>
                   call_listeners (listeners w ''update'') c = Some ex \<and> message ex = Inl ex'
            \<longrightarrow> r = Some ex' \<and> filter is_emit tr = [Emit ''update'' c] \<and>
                \<not> list_ex is_timeout tr)"
proof -
  from update_fst [OF assms] obtain tr1 r1 where tb: "try_block e w = (w', tr1, r1)"
    by blast
  have no_err: "Emit ''error'' v \<notin> set tr1" for v
    using try_block_emits [OF tb, of "''error''" v] by auto
  have nt: "\<not> list_ex is_timeout tr1"
    using try_block_no_timeout [OF tb] .
  have upd_tr1: "Emit ''update'' c \<in> set tr1" if "Emit ''update'' c \<in> set tr" for c
    using update_trace_cases [OF assms] tb that
    by (auto simp: catch_trace_def split: if_splits)
  have 1: "r = Some ex \<and> \<not> list_ex is_timeout tr"
    if h: "Emit ''error'' v \<in> set tr" "call_listeners (listeners w ''error'') v = Some ex" for v ex
  proof (cases r1)
    case None
    from update_no_catch [OF tb [unfolded None]] assms h(1) no_err show ?thesis by auto
  next
    case (Some ex1)
    note upd = update_catch [OF tb [unfolded Some]]
    show ?thesis
    proof (cases "message ex1")
      case (Inl ex')
      with upd assms h(1) no_err show ?thesis by auto
    next
      case (Inr m)
      from h(2) have ne: "listeners w ''error'' \<noteq> []" by auto
      show ?thesis
      proof (cases "emit w ''error'' m")
        case (Inl ex')
        with Inr upd assms have tr: "tr = tr1 @ [Emit ''error'' m]" and r: "r = Some ex'"
          by simp_all
        from tr h(1) no_err have "v = m" by auto
        with h(2) ne Inl have "ex' = ex" by (simp add: emit_def)
        with r tr nt show ?thesis by simp
      next
        case em: (Inr b)
        with Inr upd assms have tr: "tr = tr1 @ catch_trace w m"
          by simp
        from tr h(1) no_err have "v = m" by (auto simp: catch_trace_def split: if_splits)
        with h(2) ne em show ?thesis by (simp add: emit_def)
      qed
    qed
  qed
  have 2: "Emit ''error'' m \<in> set tr \<and>
                (listeners w ''error'' \<noteq> [] \<and> call_listeners (listeners w ''error'') m = None
                   \<longrightarrow> r = None \<and> last tr = SetTimeout (interval (options w)))"
    if h: "Emit ''update'' c \<in> set tr" "call_listeners (listeners w ''update'') c = Some ex"
       "message ex = Inr m" for c ex m
  proof -
    from try_block_update_emit [OF tb upd_tr1 [OF h(1)]] h(2) have r1: "r1 = Some ex" by simp
    note upd = update_catch [OF tb [unfolded r1]]
    show ?thesis
    proof (cases "emit w ''error'' m")
      case (Inl ex')
      with h(3) upd assms have "tr = tr1 @ [Emit ''error'' m]" by simp
      moreover from Inl have "\<not> (listeners w ''error'' \<noteq> [] \<and>
          call_listeners (listeners w ''error'') m = None)"
        by (auto simp: emit_def split: if_splits option.splits)
      ultimately show ?thesis by auto
    next
      case (Inr b)
      with h(3) upd assms have "tr = tr1 @ catch_trace w m" "r = None" by simp_all
      then show ?thesis by (simp add: catch_trace_def)
    qed
  qed
  have 3: "r = Some ex' \<and> filter is_emit tr = [Emit ''update'' c] \<and> \<not> list_ex is_timeout tr"
    if h: "Emit ''update'' c \<in> set tr" "call_listeners (listeners w ''update'') c = Some ex"
       "message ex = Inl ex'" for c ex ex'
  proof -
    note ue = try_block_update_emit [OF tb upd_tr1 [OF h(1)]]
    from ue h(2) have r1: "r1 = Some ex" by simp
    from update_catch [OF tb [unfolded r1]] h(3) assms have "tr = tr1" "r = Some ex'"
      by simp_all
    with ue nt show ?thesis by simp
  qed
  from 1 2 3 show ?thesis by blast
qed

text \<open>
  A throwing \<open>'error'\<close> listener on a missing file; a throwing \<open>'update'\<close>
  listener beside a quiet \<open>'error'\<close> listener on a rewritten file; an \<open>'update'\<close>
  listener that throws \<open>null\<close>, on the same file.
\<close>

theorem handler_exceptions_witness:
  "snd (update no_file_env (loaded throwing_listeners)) =
     ([StatSync ''config.yaml'', Emit ''error'' (JStr ''ENOENT: no such file or directory'')],
      Some (Error ''boom'')) \<and>
   \<not> list_ex is_timeout (fst (snd (update no_file_env (loaded throwing_listeners)))) \<and>
   Emit ''update'' (JObj [(''port'', JNum 3309)]) \<in>
     set (fst (snd (update port_env (loaded update_throwing_listeners)))) \<and>
   Emit ''error'' (JStr ''boom'') \<in>
     set (fst (snd (update port_env (loaded update_throwing_listeners)))) \<and>
   snd (snd (update port_env (loaded update_throwing_listeners))) = None \<and>
   last (fst (snd (update port_env (loaded update_throwing_listeners)))) = SetTimeout 60000 \<and>
   Emit ''update'' (JObj [(''port'', JNum 3309)]) \<in>
     set (fst (snd (update port_env (loaded update_null_listeners)))) \<and>
   snd (snd (update port_env (loaded update_null_listeners))) = Some null_message_error \<and>
   filter is_emit (fst (snd (update port_env (loaded update_null_listeners)))) =
     [Emit ''update'' (JObj [(''port'', JNum 3309)])] \<and>
   \<not> list_ex is_timeout (fst (snd (update port_env (loaded update_null_listeners))))"
proof -
  let ?w1 = "loaded throwing_listeners" and ?w2 = "loaded update_throwing_listeners"
  let ?w3 = "loaded update_null_listeners"
  let ?msg = "JStr ''ENOENT: no such file or directory''" and ?c = "JObj [(''port'', JNum 3309)]"
  have t1: "fst (snd (update no_file_env ?w1)) = [StatSync ''config.yaml'', Emit ''error'' ?msg]"
    by (simp add: example_defs model_defs)
  have h1: "Emit ''error'' ?msg \<in> set (fst (snd (update no_file_env ?w1))) \<and>
    call_listeners (listeners ?w1 ''error'') ?msg = Some (Error ''boom'')"
    by (simp add: t1) (simp add: example_defs)
  have t2: "fst (snd (update port_env ?w2)) =
     [StatSync ''config.yaml'', ReadFileSync ''config.yaml'', SafeLoad ''port: 3309'',
       Emit ''update'' ?c, Emit ''error'' (JStr ''boom''), SetTimeout 60000]"
    by (simp add: example_defs model_defs)
  have m2: "Emit ''update'' ?c \<in> set (fst (snd (update port_env ?w2)))"
    by (simp add: t2)
  have h2: "Emit ''update'' ?c \<in> set (fst (snd (update port_env ?w2))) \<and>
    call_listeners (listeners ?w2 ''update'') ?c = Some (Error ''boom'') \<and>
    message (Error ''boom'') = Inr (JStr ''boom'')"
    by (simp add: m2) (simp add: example_defs)
  have l2: "listeners ?w2 ''error'' \<noteq> [] \<and>
    call_listeners (listeners ?w2 ''error'') (JStr ''boom'') = None"
    by (simp add: example_defs)
  have i2: "interval (options ?w2) = 60000"
    by (simp add: example_defs)
  have t3: "Emit ''update'' ?c \<in> set (fst (snd (update port_env ?w3)))"
    by (simp add: example_defs model_defs)
  have h3: "Emit ''update'' ?c \<in> set (fst (snd (update port_env ?w3))) \<and>
    call_listeners (listeners ?w3 ''update'') ?c = Some (Thrown JNull) \<and>
    message (Thrown JNull) = Inl null_message_error"
    by (simp add: t3) (simp add: example_defs)
  note T1 = handler_exceptions [OF update_components [of no_file_env ?w1]]
  note T2 = handler_exceptions [OF update_components [of port_env ?w2]]
  note T3 = handler_exceptions [OF update_components [of port_env ?w3]]
  note a = T1 [THEN conjunct1, THEN spec [where x = ?msg], THEN spec [where x = "Error ''boom''"],
               THEN mp, OF h1]
  note b = T2 [THEN conjunct2, THEN conjunct1, THEN spec [where x = ?c],
               THEN spec [where x = "Error ''boom''"], THEN spec [where x = "JStr ''boom''"],
               THEN mp, OF h2]
  note b2 = b [THEN conjunct2, THEN mp, OF l2]
  note c = T3 [THEN conjunct2, THEN conjunct2, THEN spec [where x = ?c],
               THEN spec [where x = "Thrown JNull"], THEN spec [where x = null_message_error],
               THEN mp, OF h3]
  from a t1 have p1: "snd (update no_file_env ?w1) =
     ([StatSync ''config.yaml'', Emit ''error'' ?msg], Some (Error ''boom''))"
    by (simp add: prod_eq_iff)
  show ?thesis
    by (intro conjI)
       (rule p1 a [THEN conjunct2] m2 b [THEN conjunct1] b2 [THEN conjunct1]
             b2 [THEN conjunct2, unfolded i2] t3 c [THEN conjunct1]
             c [THEN conjunct2, THEN conjunct1] c [THEN conjunct2, THEN conjunct2])+
qed

text \<open>
  Against C8 as stated: the \<open>onupdate\<close> handler throws in a poll cycle, \<open>update()\<close>
  returns all the same and the next poll is scheduled.
\<close>

theorem onupdate_exception_caught:
  "call_listeners (listeners (fst (constructor host_env ''config.yaml'' throwing_options)) ''update'')
       (JObj [(''port'', JNum 3309)]) = Some (Error ''boom'') \<and>
   snd (update port_env (fst (constructor host_env ''config.yaml'' throwing_options))) =
     ([StatSync ''config.yaml'', ReadFileSync ''config.yaml'', SafeLoad ''port: 3309'',
       Emit ''update'' (JObj [(''port'', JNum 3309)]), Emit ''error'' (JStr ''boom''),
       SetTimeout 60000],
      None)"
  by (simp add: example_defs model_defs)

subsection \<open>C9: the stored modification time follows the file\<close>

text \<open>
  C9, as the code has it. A cycle in which the stat returns a time different from the
  stored one, and the read and the parser return, sets the stored time to the time of the
  stat, whichever way the two differ. Every other cycle leaves the stored time alone. So
  over a sequence of cycles the stored time never decreases when the times returned by the
  successful stats never decrease, starting from the stored one.
\<close>

theorem modifyTime_follows_file:
  "(\<forall>t content a c.
      statSync e (filename (options w)) = Inr t \<and> t \<noteq> modifyTime (options w) \<and>
      readFileSync e (filename (options w)) = Inr content \<and>
      parse e (filename (options w)) content = (a, Inr c)
      \<longrightarrow> modifyTime (options (fst (update e w))) = t) \<and>
   (\<not> (\<exists>t content a c.
      statSync e (filename (options w)) = Inr t \<and> t \<noteq> modifyTime (options w) \<and>
      readFileSync e (filename (options w)) = Inr content \<and>
      parse e (filename (options w)) content = (a, Inr c))
      \<longrightarrow> modifyTime (options (fst (update e w))) = modifyTime (options w)) \<and>
   (sorted (modifyTime (options w) # stat_times (filename (options w)) es)
      \<longrightarrow> sorted (modifyTimes (w # run_polls es w)))"
proof (intro conjI allI impI)
  obtain tr1 r1 where tb: "try_block e w = (fst (update e w), tr1, r1)"
    using update_fst [OF update_components] by blast
  note mt = try_block_modifyTime [OF tb]
  {
    fix t content a c
    assume "statSync e (filename (options w)) = Inr t \<and> t \<noteq> modifyTime (options w) \<and>
      readFileSync e (filename (options w)) = Inr content \<and>
      parse e (filename (options w)) content = (a, Inr c)"
    with mt show "modifyTime (options (fst (update e w))) = t"
      by simp
  }
  {
    assume n: "\<not> (\<exists>t content a c.
      statSync e (filename (options w)) = Inr t \<and> t \<noteq> modifyTime (options w) \<and>
      readFileSync e (filename (options w)) = Inr content \<and>
      parse e (filename (options w)) content = (a, Inr c))"
    show "modifyTime (options (fst (update e w))) = modifyTime (options w)"
    proof (cases "statSync e (filename (options w))")
      case (Inl x)
      with mt show ?thesis by simp
    next
      case st: (Inr t)
      show ?thesis
      proof (cases "readFileSync e (filename (options w))")
        case (Inl x)
        with st mt show ?thesis by simp
      next
        case rd: (Inr content)
        show ?thesis
        proof (cases "snd (parse e (filename (options w)) content)")
          case (Inl x)
          with st rd mt show ?thesis by simp
        next
          case (Inr c)
          then have "parse e (filename (options w)) content =
                       (fst (parse e (filename (options w)) content), Inr c)"
            by (simp add: prod_eq_iff)
          with n st rd have "t = modifyTime (options w)" by blast
          with st rd Inr mt show ?thesis by simp
        qed
      qed
    qed
  }
  {
    assume "sorted (modifyTime (options w) # stat_times (filename (options w)) es)"
    then show "sorted (modifyTimes (w # run_polls es w))"
    proof (induction es arbitrary: w)
      case Nil
      then show ?case by (simp add: modifyTimes_def)
    next
      case (Cons e es)
      obtain w' tr r where u: "update e w = (w', tr, r)"
        by (metis prod_cases3)
      from update_fst [OF u] obtain tr1 r1 where tb: "try_block e w = (w', tr1, r1)"
        by blast
      have fn: "filename (options w') = filename (options w)"
        using update_frame [OF u] by simp
      have le: "modifyTime (options w) \<le> modifyTime (options w')" and
           srt: "sorted (modifyTime (options w') # stat_times (filename (options w')) es)"
        using try_block_modifyTime [OF tb] Cons.prems fn
        by (auto split: sum.splits)
      show ?case
      proof (cases r)
        case None
        with u Cons.IH [OF srt] le show ?thesis
          by (fastforce simp: modifyTimes_def order_trans)
      next
        case (Some ex)
        with u le show ?thesis by (simp add: modifyTimes_def)
      qed
    qed
  }
qed

text \<open>
  One cycle that reloads, one that fails, and three polls in a row: the file at time
  10, the file missing, the file at time 20.
\<close>

theorem modifyTime_follows_file_witness:
  "parse port_env ''config.yaml'' ''port: 3309'' =
     (SafeLoad ''port: 3309'', Inr (JObj [(''port'', JNum 3309)])) \<and>
   modifyTime (options (loaded quiet_listeners)) = 10 \<and>
   modifyTime (options (fst (update port_env (loaded quiet_listeners)))) = 20 \<and>
   modifyTime (options (fst (update no_file_env (loaded quiet_listeners)))) = 10 \<and>
   sorted (modifyTime (options (initial ''config.yaml'' quiet_options)) #
           stat_times (filename (options (initial ''config.yaml'' quiet_options))) rising_envs) \<and>
   modifyTimes (initial ''config.yaml'' quiet_options #
                run_polls rising_envs (initial ''config.yaml'' quiet_options)) = [0, 10, 10, 20] \<and>
   sorted (modifyTimes (initial ''config.yaml'' quiet_options #
                        run_polls rising_envs (initial ''config.yaml'' quiet_options)))"
proof -
  let ?w = "loaded quiet_listeners" and ?i = "initial ''config.yaml'' quiet_options"
  have p: "parse port_env ''config.yaml'' ''port: 3309'' =
     (SafeLoad ''port: 3309'', Inr (JObj [(''port'', JNum 3309)]))"
    by (simp add: example_defs model_defs)
  have m: "modifyTime (options ?w) = 10"
    by (simp add: example_defs)
  have h1: "statSync port_env (filename (options ?w)) = Inr 20 \<and> 20 \<noteq> modifyTime (options ?w) \<and>
      readFileSync port_env (filename (options ?w)) = Inr ''port: 3309'' \<and>
      parse port_env (filename (options ?w)) ''port: 3309'' =
        (SafeLoad ''port: 3309'', Inr (JObj [(''port'', JNum 3309)]))"
    by (simp add: example_defs model_defs)
  have h2: "\<not> (\<exists>t content a c.
      statSync no_file_env (filename (options ?w)) = Inr t \<and> t \<noteq> modifyTime (options ?w) \<and>
      readFileSync no_file_env (filename (options ?w)) = Inr content \<and>
      parse no_file_env (filename (options ?w)) content = (a, Inr c))"
    by (simp add: example_defs)
  have h3: "sorted (modifyTime (options ?i) # stat_times (filename (options ?i)) rising_envs)"
    by (simp add: example_defs initial_def assign_options_def on_def)
  have v: "modifyTimes (?i # run_polls rising_envs ?i) = [0, 10, 10, 20]"
    by (simp add: modifyTimes_def example_defs model_defs)
  note a = modifyTime_follows_file [of port_env ?w, THEN conjunct1, THEN spec [where x = 20],
             THEN spec [where x = "''port: 3309''"], THEN spec [where x = "SafeLoad ''port: 3309''"],
             THEN spec [where x = "JObj [(''port'', JNum 3309)]"], THEN mp, OF h1]
  note b = modifyTime_follows_file [of no_file_env ?w, THEN conjunct2, THEN conjunct1, THEN mp, OF h2]
  note c = modifyTime_follows_file [of _ ?i rising_envs, THEN conjunct2, THEN conjunct2, THEN mp, OF h3]
  show ?thesis
    by (intro conjI) (rule p m a b [unfolded m] h3 v c)+
qed

text \<open>
  Against C9 as stated: the file is loaded at time 20, then found with time 10 (an
  older file moved into its place). Both stats succeed, both cycles reload, and the stored
  time goes from 20 to 10.
\<close>

theorem mtime_goes_back:
  "snd (snd (constructor port_env ''config.yaml'' no_options)) = None \<and>
   modifyTime (options (fst (constructor port_env ''config.yaml'' no_options))) = 20 \<and>
   statSync host_env ''config.yaml'' = Inr 10 \<and>
   snd (snd (update host_env (fst (constructor port_env ''config.yaml'' no_options)))) = None \<and>
   modifyTime (options (fst (update host_env (fst (constructor port_env ''config.yaml'' no_options))))) = 10"
  by (simp add: example_defs model_defs)

subsection \<open>C10: the caller's options override the defaults\<close>

text \<open>
  C10. A \<open>filename\<close>, \<open>interval\<close> or \<open>modifyTime\<close> key of the options object
  replaces the constructor's first argument, the 60000 ms default and the initial time 0:
  the first stat is made on \<open>options.filename\<close>, the timer is set to
  \<open>options.interval\<close>, and a file whose time equals \<open>options.modifyTime\<close> is not
  loaded at all.
\<close>

theorem options_override:
  assumes "constructor e fname uo = (w, tr, r)"
  shows "(\<forall>f. u_filename uo = Some f \<longrightarrow> filename (options w) = f \<and> hd tr = StatSync f) \<and>
         (\<forall>i. u_interval uo = Some i \<longrightarrow>
            interval (options w) = i \<and> (r = None \<longrightarrow> last tr = SetTimeout i)) \<and>
         (\<forall>t. u_modifyTime uo = Some t \<longrightarrow> modifyTime (options (initial fname uo)) = t \<and>
            (statSync e (filename (options w)) = Inr t \<longrightarrow>
               config w = [] \<and>
               tr = [StatSync (filename (options w)), SetTimeout (interval (options w))]))"
proof -
  let ?w0 = "initial fname uo"
  have o: "options ?w0 = assign_options fname uo" and c: "config ?w0 = []"
    by (auto simp: initial_def on_def Let_def split: option.splits)
  from assms have u: "update e ?w0 = (w, tr, r)" by (simp add: constructor_def)
  note fr = update_frame [OF u]
  from update_trace_shape [OF u] obtain tr1 r1 where
    tb: "try_block e ?w0 = (w, tr1, r1)" and
    sh: "(case r1 of
        None \<Rightarrow> tr = tr1 @ [SetTimeout (interval (options ?w0))] \<and> r = None
      | Some ex \<Rightarrow>
          (case message ex of
             Inl ex' \<Rightarrow> tr = tr1 \<and> r = Some ex'
           | Inr m \<Rightarrow>
               (case emit ?w0 ''error'' m of
                  Inl ex' \<Rightarrow> tr = tr1 @ [Emit ''error'' m] \<and> r = Some ex'
                | Inr _ \<Rightarrow> r = None \<and> tr = tr1 @ catch_trace ?w0 m)))"
    by blast
  from try_block_starts_with_stat [OF tb]
  have hd: "hd tr = StatSync (filename (options ?w0))"
    using sh by (auto split: option.splits sum.splits)
  have lst: "r = None \<longrightarrow> last tr = SetTimeout (interval (options ?w0))"
    using sh by (auto simp: last_catch_trace split: option.splits sum.splits)
  have skip: "config w = [] \<and> tr = [StatSync (filename (options w)), SetTimeout (interval (options w))]"
    if "u_modifyTime uo = Some t" "statSync e (filename (options w)) = Inr t" for t
  proof -
    from that fr o have "statSync e (filename (options ?w0)) = Inr t" "modifyTime (options ?w0) = t"
      by (simp_all add: assign_options_def)
    from update_same_mtime [OF this] u c show ?thesis by auto
  qed
  from fr o hd lst skip show ?thesis
    by (auto simp: assign_options_def)
qed

text \<open>
  The first argument names \<open>other.json\<close>, the options name \<open>config.yaml\<close>, 500 ms
  and the time 10, which is the time of the file.
\<close>

theorem options_override_witness:
  "filename (options (fst (constructor host_env ''other.json'' override_options))) = ''config.yaml'' \<and>
   hd (fst (snd (constructor host_env ''other.json'' override_options))) = StatSync ''config.yaml'' \<and>
   interval (options (fst (constructor host_env ''other.json'' override_options))) = 500 \<and>
   last (fst (snd (constructor host_env ''other.json'' override_options))) = SetTimeout 500 \<and>
   modifyTime (options (initial ''other.json'' override_options)) = 10 \<and>
   config (fst (constructor host_env ''other.json'' override_options)) = [] \<and>
   fst (snd (constructor host_env ''other.json'' override_options)) =
     [StatSync ''config.yaml'', SetTimeout 500]"
proof -
  let ?r = "constructor host_env ''other.json'' override_options"
  have u: "?r = (fst ?r, fst (snd ?r), snd (snd ?r))" by simp
  have h: "u_filename override_options = Some ''config.yaml''" "u_interval override_options = Some 500"
    "u_modifyTime override_options = Some 10"
    by (simp_all add: example_defs)
  have r: "snd (snd ?r) = None"
    by (simp add: example_defs model_defs)
  from options_override [OF u] h
  have 1: "filename (options (fst ?r)) = ''config.yaml''" "hd (fst (snd ?r)) = StatSync ''config.yaml''"
    "interval (options (fst ?r)) = 500" "snd (snd ?r) = None \<longrightarrow> last (fst (snd ?r)) = SetTimeout 500"
    "modifyTime (options (initial ''other.json'' override_options)) = 10"
    "statSync host_env (filename (options (fst ?r))) = Inr 10 \<longrightarrow>
       config (fst ?r) = [] \<and>
       fst (snd ?r) = [StatSync (filename (options (fst ?r))), SetTimeout (interval (options (fst ?r)))]"
    by blast+
  have s: "statSync host_env ''config.yaml'' = Inr 10"
    by (simp add: example_defs)
  from 1 r s show ?thesis by simp
qed

end
